theory Spec2Isabelle
  imports Complex_Main "HOL-Library.Sublist" "HOL-Library.List_Lexorder" "HOL-Library.Char_ord"
    "HOL-Library.Word"
begin

section \<open>JavaScript values\<close>

text \<open>
  A JavaScript \<^verbatim>\<open>number\<close> is an IEEE-754 double. The model keeps the special value
  \<^verbatim>\<open>NaN\<close> apart and idealises every other number as a real: rounding error of the
  double arithmetic is not modelled. Sample values, Laplacian responses, array lengths and
  whole-second time points are integers far below \<open>2^53\<close>, where doubles are exact.

  Strings are byte strings (the UTF-8 encoding of the JavaScript string).
\<close>

datatype number = Num real | NaN

fun jadd :: "number \<Rightarrow> number \<Rightarrow> number" where
  "jadd (Num a) (Num b) = Num (a + b)"
| "jadd _ _ = NaN"

fun jsub :: "number \<Rightarrow> number \<Rightarrow> number" where
  "jsub (Num a) (Num b) = Num (a - b)"
| "jsub _ _ = NaN"

fun jmul :: "number \<Rightarrow> number \<Rightarrow> number" where
  "jmul (Num a) (Num b) = Num (a * b)"
| "jmul _ _ = NaN"

text \<open>
  Division: \<^verbatim>\<open>0 / 0\<close> is \<^verbatim>\<open>NaN\<close>. Every division of the modelled code divides the
  sum over an array (a \<^verbatim>\<open>reduce\<close> from \<^verbatim>\<open>0\<close>) by the length of that array, or divides
  by the constant \<^verbatim>\<open>100\<close>; so a zero divisor only ever meets a zero (or \<^verbatim>\<open>NaN\<close>)
  dividend, and \<^verbatim>\<open>\<plusminus>Infinity\<close> is never produced.
\<close>

fun jdiv :: "number \<Rightarrow> number \<Rightarrow> number" where
  "jdiv (Num a) (Num b) = (if b = 0 then NaN else Num (a / b))"
| "jdiv _ _ = NaN"

text \<open>\<^verbatim>\<open>Math.abs\<close>, \<^verbatim>\<open>Math.min\<close>, \<^verbatim>\<open>Math.pow\<close> and \<^verbatim>\<open>Math.round\<close> (which rounds a tie
  towards \<open>+\<infinity>\<close>).\<close>

fun Math_abs :: "number \<Rightarrow> number" where
  "Math_abs (Num a) = Num \<bar>a\<bar>"
| "Math_abs NaN = NaN"

fun Math_min :: "number \<Rightarrow> number \<Rightarrow> number" where
  "Math_min (Num a) (Num b) = Num (min a b)"
| "Math_min _ _ = NaN"

fun Math_pow :: "number \<Rightarrow> nat \<Rightarrow> number" where
  "Math_pow (Num a) n = Num (a ^ n)"
| "Math_pow NaN n = (if n = 0 then Num 1 else NaN)"

fun Math_round :: "number \<Rightarrow> number" where
  "Math_round (Num a) = Num (of_int \<lfloor>a + 1 / 2\<rfloor>)"
| "Math_round NaN = NaN"

text \<open>A thrown value: an \<^verbatim>\<open>Error\<close> (of any subclass) with its message, or anything else.\<close>

datatype thrown = Error string | NonError

subsection \<open>Number to string\<close>

fun nat_digits :: "nat \<Rightarrow> string" where
  "nat_digits n =
     (if n < 10 then [''0123456789'' ! n]
      else nat_digits (n div 10) @ [''0123456789'' ! (n mod 10)])"

declare nat_digits.simps [simp del]

definition int_to_string :: "int \<Rightarrow> string" where
  "int_to_string i = (if i < 0 then ''-'' @ nat_digits (nat (- i)) else nat_digits (nat i))"

text \<open>
  \<^verbatim>\<open>Number.prototype.toString\<close>, as a template literal applies it. An integer of magnitude
  below \<open>10^21\<close> prints as its decimal digits. The digits of any other finite number (the
  shortest decimal that reads back as the same double) are left to the parameter \<open>fmt\<close>.
\<close>

fun numberToString :: "(real \<Rightarrow> string) \<Rightarrow> number \<Rightarrow> string" where
  "numberToString fmt NaN = ''NaN''"
| "numberToString fmt (Num x) =
     (if x = of_int \<lfloor>x\<rfloor> \<and> \<bar>x\<bar> < 10 ^ 21 then int_to_string \<lfloor>x\<rfloor> else fmt x)"

subsection \<open>Arrays and strings\<close>

text \<open>\<^verbatim>\<open>Array.prototype.join\<close>.\<close>

fun join :: "string \<Rightarrow> string list \<Rightarrow> string" where
  "join sep [] = []"
| "join sep [x] = x"
| "join sep (x # y # ys) = x @ sep @ join sep (y # ys)"

text \<open>\<^verbatim>\<open>Array.from(new Set(xs))\<close>: the distinct elements in order of first insertion.\<close>

fun Set_insert_all :: "'a list \<Rightarrow> 'a list \<Rightarrow> 'a list" where
  "Set_insert_all acc [] = acc"
| "Set_insert_all acc (x # xs) = Set_insert_all (if x \<in> set acc then acc else acc @ [x]) xs"

definition Array_from_Set :: "'a list \<Rightarrow> 'a list" where
  "Array_from_Set xs = Set_insert_all [] xs"

text \<open>\<^verbatim>\<open>Array.prototype.indexOf\<close>: the first index holding the value, or \<open>-1\<close>.\<close>

fun indexOf :: "'a list \<Rightarrow> 'a \<Rightarrow> int" where
  "indexOf [] v = - 1"
| "indexOf (x # xs) v =
     (if x = v then 0 else (let i = indexOf xs v in if i < 0 then - 1 else i + 1))"

text \<open>
  \<^verbatim>\<open>encodeURI\<close>: letters, digits and the characters \<^verbatim>\<open>; , / ? : @ & = + $ - _ . ! ~ * ' ( ) #\<close>
  stay; every other byte of the UTF-8 encoding becomes \<^verbatim>\<open>%XX\<close>. (A string with a lone
  surrogate, on which \<^verbatim>\<open>encodeURI\<close> throws, has no UTF-8 encoding and is not a value of
  the model's string type.)
\<close>

definition uri_unescaped :: "char \<Rightarrow> bool" where
  \<open>uri_unescaped c =
     (c \<in> set (''ABCDEFGHIJKLMNOPQRSTUVWXYZabcdefghijklmnopqrstuvwxyz0123456789''
               @ '';,/?:@&=+$-_.!~*()#'' @ [CHR 0x27]))\<close>

definition percent_encode :: "char \<Rightarrow> string" where
  "percent_encode c =
     [CHR ''%'', ''0123456789ABCDEF'' ! (of_char c div 16), ''0123456789ABCDEF'' ! (of_char c mod 16)]"

definition encodeURI :: "string \<Rightarrow> string" where
  "encodeURI s = concat (map (\<lambda>c. if uri_unescaped c then [c] else percent_encode c) s)"

section \<open>Shared types (\<^verbatim>\<open>shared/types\<close>)\<close>

record VideoFile =
  file_id :: string
  path :: string
  filename :: string
  directory :: string
  duration :: number
  width :: number
  height :: number
  fps :: number
  codec :: string
  thumbnail :: "string option"

record VideoClip = VideoFile +
  focusScore :: number
  compositionScore :: "number option"
  audioScore :: "number option"
  overallScore :: number
  selected :: bool
  inPoint :: number
  outPoint :: number
  category :: "string option"

datatype stage = scanning | extracting | analyzing | complete | error

record AnalysisProgress =
  stage :: stage
  current :: nat
  total :: nat
  currentFile :: "string option"
  message :: "string option"

datatype export_format = fcpxml | premiere | resolve

text \<open>\<^verbatim>\<open>Partial<ExportOptions>\<close>: every field may be absent. An object that arrives over IPC
  may carry further properties; they are the extension slot of the record.\<close>

record ExportOptions =
  format :: "export_format option"
  outputPath :: "string option"
  projectName :: "string option"
  includeAudio :: "bool option"

section \<open>The FCPXML serializer (\<^verbatim>\<open>generateFCPXML\<close>)\<close>

text \<open>One \<^verbatim>\<open>asset\<close> element per unique path; its duration is that of the first selected
  clip with that path. Reading \<^verbatim>\<open>clip.duration\<close> of a clip that \<^verbatim>\<open>find\<close> did not find
  would throw a \<^verbatim>\<open>TypeError\<close>.\<close>

definition assetXml :: "(real \<Rightarrow> string) \<Rightarrow> VideoClip \<Rightarrow> string \<Rightarrow> nat \<Rightarrow> string" where
  \<open>assetXml fmt clip p index =
     ''    <asset id="r'' @ nat_digits (index + 1) @ ''" src="file://'' @ encodeURI p
     @ ''" start="0s" duration="'' @ numberToString fmt (duration clip)
     @ ''s" hasVideo="1" format="r0" hasAudio="1"/>''\<close>

definition asset :: "(real \<Rightarrow> string) \<Rightarrow> VideoClip list \<Rightarrow> string \<Rightarrow> nat \<Rightarrow> thrown + string" where
  \<open>asset fmt selectedClips p index =
     (case find (\<lambda>c. path c = p) selectedClips of
        None \<Rightarrow> Inl (Error ''Cannot read properties of undefined (reading 'duration')'')
      | Some clip \<Rightarrow> Inr (assetXml fmt clip p index))\<close>

text \<open>A \<^verbatim>\<open>map\<close> whose callback may throw: the first throw ends it.\<close>

fun map_throwing :: "('a \<Rightarrow> thrown + 'b) \<Rightarrow> 'a list \<Rightarrow> thrown + 'b list" where
  "map_throwing f [] = Inr []"
| "map_throwing f (x # xs) =
     (case f x of
        Inl e \<Rightarrow> Inl e
      | Inr y \<Rightarrow> (case map_throwing f xs of Inl e \<Rightarrow> Inl e | Inr ys \<Rightarrow> Inr (y # ys)))"

definition assets :: "(real \<Rightarrow> string) \<Rightarrow> VideoClip list \<Rightarrow> string list \<Rightarrow> thrown + string list" where
  "assets fmt selectedClips uniqueFiles =
     map_throwing (\<lambda>(p, index). asset fmt selectedClips p index)
       (zip uniqueFiles [0..<length uniqueFiles])"

definition clipXml :: "(real \<Rightarrow> string) \<Rightarrow> string list \<Rightarrow> number \<Rightarrow> VideoClip \<Rightarrow> string" where
  \<open>clipXml fmt uniqueFiles currentOffset clip =
     (let resourceId = indexOf uniqueFiles (path clip) + 1;
          duration = jsub (outPoint clip) (inPoint clip);
          start = inPoint clip
      in ''      <asset-clip ref="r'' @ int_to_string resourceId
         @ ''" offset="'' @ numberToString fmt currentOffset
         @ ''s" name="'' @ filename clip
         @ ''" start="'' @ numberToString fmt start
         @ ''s" duration="'' @ numberToString fmt duration @ ''s">\<newline>''
         @ ''        <note>Focus Score: '' @ numberToString fmt (focusScore clip) @ ''</note>\<newline>''
         @ ''      </asset-clip>'')\<close>

text \<open>The \<^verbatim>\<open>map\<close> over the selected clips that advances \<^verbatim>\<open>currentOffset\<close>: it returns
  the clip elements and the final value of \<^verbatim>\<open>currentOffset\<close>.\<close>

fun timelineClips :: "(real \<Rightarrow> string) \<Rightarrow> string list \<Rightarrow> number \<Rightarrow> VideoClip list
    \<Rightarrow> string list \<times> number" where
  "timelineClips fmt uniqueFiles currentOffset [] = ([], currentOffset)"
| "timelineClips fmt uniqueFiles currentOffset (clip # clips) =
     (let duration = jsub (outPoint clip) (inPoint clip);
          x = clipXml fmt uniqueFiles currentOffset clip;
          (xs, final) = timelineClips fmt uniqueFiles (jadd currentOffset duration) clips
      in (x # xs, final))"

definition document :: "string \<Rightarrow> string \<Rightarrow> string \<Rightarrow> string \<Rightarrow> string" where
  \<open>document resources projName seqDuration spine =
     ''<?xml version="1.0" encoding="UTF-8"?>\<newline>''
     @ ''<!DOCTYPE fcpxml>\<newline>''
     @ ''<fcpxml version="1.10">\<newline>''
     @ ''  <resources>\<newline>''
     @ ''    <format id="r0" name="FFVideoFormat1080p30" frameDuration="100/3000s" width="1920" height="1080" colorSpace="1-1-1 (Rec. 709)"/>\<newline>''
     @ resources @ ''\<newline>''
     @ ''  </resources>\<newline>''
     @ ''  <library>\<newline>''
     @ ''    <event name="Video Culler Import">\<newline>''
     @ ''      <project name="'' @ projName @ ''">\<newline>''
     @ ''        <sequence format="r0" tcStart="0s" tcFormat="NDF" duration="'' @ seqDuration @ ''s">\<newline>''
     @ ''          <spine>\<newline>''
     @ spine @ ''\<newline>''
     @ ''          </spine>\<newline>''
     @ ''        </sequence>\<newline>''
     @ ''      </project>\<newline>''
     @ ''    </event>\<newline>''
     @ ''  </library>\<newline>''
     @ ''</fcpxml>''\<close>

definition generateFCPXML :: "(real \<Rightarrow> string) \<Rightarrow> VideoClip list \<Rightarrow> string \<Rightarrow> thrown + string" where
  "generateFCPXML fmt clips projName =
     (let selectedClips = filter selected clips;
          uniqueFiles = Array_from_Set (map path selectedClips)
      in case assets fmt selectedClips uniqueFiles of
           Inl e \<Rightarrow> Inl e
         | Inr as \<Rightarrow>
             (let resources = join ''\<newline>'' as;
                  (clipXmls, currentOffset) = timelineClips fmt uniqueFiles (Num 0) selectedClips
              in Inr (document resources projName (numberToString fmt currentOffset)
                        (join ''\<newline>'' clipXmls))))"

section \<open>The export handler (\<^verbatim>\<open>setupExportHandlers\<close>)\<close>







section \<open>Focus scoring (\<^verbatim>\<open>calculateFocusScore\<close>)\<close>

text \<open>
  What \<^verbatim>\<open>sharp(imagePath).grayscale().raw().toBuffer\<close> resolves to: the samples (a
  \<^verbatim>\<open>Buffer\<close>, one byte each) and the dimensions. Reading a \<^verbatim>\<open>Buffer\<close> past its end
  gives \<^verbatim>\<open>undefined\<close>, which arithmetic turns into \<^verbatim>\<open>NaN\<close>.
\<close>

record RawImage =
  data :: "8 word list"
  info_width :: nat
  info_height :: nat

definition sample :: "8 word list \<Rightarrow> nat \<Rightarrow> number" where
  "sample d idx = (if idx < length d then Num (real (unat (d ! idx))) else NaN)"

text \<open>The body of the inner loop, for an interior pixel \<open>(x, y)\<close>.\<close>

definition lap :: "RawImage \<Rightarrow> nat \<Rightarrow> nat \<Rightarrow> number" where
  "lap img y x =
     (let w = info_width img;
          idx = y * w + x;
          center = sample (data img) idx;
          top = sample (data img) ((y - 1) * w + x);
          bottom = sample (data img) ((y + 1) * w + x);
          left = sample (data img) (y * w + (x - 1));
          right = sample (data img) (y * w + (x + 1))
      in Math_abs (jadd (jadd (jadd (jadd (jmul (Num (- 4)) center) top) bottom) left) right))"

text \<open>
  The two nested loops, \<^verbatim>\<open>y\<close> from \<open>1\<close> while \<^verbatim>\<open>y < height - 1\<close> and \<^verbatim>\<open>x\<close> from \<open>1\<close>
  while \<^verbatim>\<open>x < width - 1\<close>, pushing one response per pixel. (For a dimension of \<open>0\<close> the
  bound is \<open>-1\<close> in the source and \<open>0\<close> here: no iteration either way.)
\<close>

definition laplacian :: "RawImage \<Rightarrow> number list" where
  "laplacian img =
     concat (map (\<lambda>y. map (\<lambda>x. lap img y x) [1..<info_width img - 1]) [1..<info_height img - 1])"

definition variance :: "RawImage \<Rightarrow> number" where
  "variance img =
     (let l = laplacian img;
          mean = jdiv (foldl (\<lambda>acc val. jadd acc val) (Num 0) l) (Num (real (length l)))
      in jdiv (foldl (\<lambda>acc val. jadd acc (Math_pow (jsub val mean) 2)) (Num 0) l)
              (Num (real (length l))))"

definition score :: "RawImage \<Rightarrow> number" where
  "score img = Math_min (Num 100) (jmul (jdiv (variance img) (Num 100)) (Num 100))"

section \<open>The analysis handlers (\<^verbatim>\<open>setupAnalysisHandlers\<close>)\<close>

text \<open>
  What the analysis meets outside the program:
  \<^item> \<^verbatim>\<open>os.tmpdir()\<close>;
  \<^item> \<^verbatim>\<open>mkdtemp\<close>: given the prefix and the number of earlier calls (the six characters it
    appends are random), the path of the directory it has created, or what it throws;
  \<^item> the ffmpeg run: given the video path, the output pattern and the interval, the names of
    the files it has written into the output directory, and its error if it ended with one;
  \<^item> \<^verbatim>\<open>sharp\<close> decoding a frame to raw grayscale, and \<^verbatim>\<open>sharp\<close> making the base64 text of
    the resized JPEG (called on \<^verbatim>\<open>undefined\<close> when there is no such frame).

  The state: the directories with the names of their files, the number of \<^verbatim>\<open>mkdtemp\<close>
  calls so far, the progress events sent to the renderer, the lines of
  \<^verbatim>\<open>console.error\<close>, and the module-level clip store of \<^verbatim>\<open>clipHandlers\<close>.
  \<^verbatim>\<open>readdir\<close> of the directory that \<^verbatim>\<open>mkdtemp\<close> has just created is taken to succeed, and
  \<^verbatim>\<open>sender.send\<close> to deliver.
\<close>

record analysis_env =
  tmpdir :: string
  mkdtemp :: "string \<Rightarrow> nat \<Rightarrow> thrown + string"
  ffmpeg :: "string \<Rightarrow> string \<Rightarrow> nat \<Rightarrow> string list \<times> thrown option"
  sharp_raw :: "string \<Rightarrow> thrown + RawImage"
  sharp_thumbnail :: "string option \<Rightarrow> thrown + string"

record world =
  dirs :: "string \<rightharpoonup> string list"
  mkdtemp_calls :: nat
  sent :: "AnalysisProgress list"
  console :: "(string \<times> thrown) list"
  stored_clips :: "VideoClip list"

definition sendProgress :: "AnalysisProgress \<Rightarrow> world \<Rightarrow> world" where
  "sendProgress progress w = w\<lparr>sent := sent w @ [progress]\<rparr>"

definition console_error :: "string \<Rightarrow> thrown \<Rightarrow> world \<Rightarrow> world" where
  "console_error msg e w = w\<lparr>console := console w @ [(msg, e)]\<rparr>"

definition setClips :: "VideoClip list \<Rightarrow> world \<Rightarrow> world" where
  "setClips newClips w = w\<lparr>stored_clips := newClips\<rparr>"

text \<open>\<^verbatim>\<open>path.join\<close> of a directory and a name without separators.\<close>

definition path_join :: "string \<Rightarrow> string \<Rightarrow> string" where
  "path_join a b = a @ ''/'' @ b"

definition readdir :: "world \<Rightarrow> string \<Rightarrow> string list" where
  "readdir w d = (case dirs w d of None \<Rightarrow> [] | Some fs \<Rightarrow> fs)"

definition calculateFocusScore :: "analysis_env \<Rightarrow> string \<Rightarrow> thrown + number" where
  "calculateFocusScore env imagePath =
     (case sharp_raw env imagePath of Inl e \<Rightarrow> Inl e | Inr img \<Rightarrow> Inr (score img))"

definition generateThumbnail :: "analysis_env \<Rightarrow> string option \<Rightarrow> thrown + string" where
  "generateThumbnail env imagePath =
     (case sharp_thumbnail env imagePath of
        Inl e \<Rightarrow> Inl e
      | Inr b64 \<Rightarrow> Inr (''data:image/jpeg;base64,'' @ b64))"

text \<open>
  \<^verbatim>\<open>extractFrames\<close>: ffmpeg writes its files; on \<^verbatim>\<open>end\<close> the directory is listed, the
  names that start with \<^verbatim>\<open>frame-\<close> are sorted and joined to the directory; on
  \<^verbatim>\<open>error\<close> the promise rejects.
\<close>

definition extractFrames :: "analysis_env \<Rightarrow> string \<Rightarrow> string \<Rightarrow> nat \<Rightarrow> world
    \<Rightarrow> (thrown + string list) \<times> world" where
  "extractFrames env videoPath outputDir interval w =
     (case ffmpeg env videoPath (path_join outputDir ''frame-%04d.png'') interval of
        (written, ended) \<Rightarrow>
          (let w' = w\<lparr>dirs := (dirs w)(outputDir \<mapsto> readdir w outputDir @ written)\<rparr>
           in case ended of
                Some e \<Rightarrow> (Inl e, w')
              | None \<Rightarrow>
                  (let files = readdir w' outputDir;
                       framePaths = map (\<lambda>f. path_join outputDir f)
                                      (sort (filter (\<lambda>f. prefix ''frame-'' f) files))
                   in (Inr framePaths, w'))))"

text \<open>\<^verbatim>\<open>frames[i]\<close>: \<^verbatim>\<open>undefined\<close> past the end.\<close>

definition at_index :: "'a list \<Rightarrow> nat \<Rightarrow> 'a option" where
  "at_index xs i = (if i < length xs then Some (xs ! i) else None)"

text \<open>
  \<^verbatim>\<open>analyzeVideo\<close>. \<^verbatim>\<open>Promise.all\<close> over the frames rejects as soon as one scoring
  rejects; the rejections differ only in the error that is logged, and the model takes the
  first in frame order.
\<close>

definition analyzeVideo :: "analysis_env \<Rightarrow> VideoFile \<Rightarrow> world \<Rightarrow> (thrown + VideoClip) \<times> world" where
  "analyzeVideo env video w =
     (case mkdtemp env (path_join (tmpdir env) ''video-culler-'') (mkdtemp_calls w) of
        Inl e \<Rightarrow> (Inl e, w\<lparr>mkdtemp_calls := Suc (mkdtemp_calls w)\<rparr>)
      | Inr tempDir \<Rightarrow>
          (case extractFrames env (path video) tempDir 1
                  (w\<lparr>dirs := (dirs w)(tempDir \<mapsto> []), mkdtemp_calls := Suc (mkdtemp_calls w)\<rparr>) of
             (Inl e, w') \<Rightarrow> (Inl e, w')
           | (Inr frames, w') \<Rightarrow>
               (case map_throwing (\<lambda>frame. calculateFocusScore env frame) frames of
                  Inl e \<Rightarrow> (Inl e, w')
                | Inr focusScores \<Rightarrow>
                    (let avgFocusScore =
                           jdiv (foldl (\<lambda>acc sc. jadd acc sc) (Num 0) focusScores)
                                (Num (real (length focusScores)));
                         middleFrameIndex = length frames div 2
                     in case generateThumbnail env (at_index frames middleFrameIndex) of
                          Inl e \<Rightarrow> (Inl e, w')
                        | Inr thumb \<Rightarrow>
                            (let overall = Math_round avgFocusScore
                             in (Inr \<lparr>file_id = file_id video, path = path video,
                                      filename = filename video, directory = directory video,
                                      duration = duration video, width = width video,
                                      height = height video, fps = fps video,
                                      codec = codec video, thumbnail = Some thumb,
                                      focusScore = overall, compositionScore = None,
                                      audioScore = None, overallScore = overall,
                                      selected = False, inPoint = Num 0,
                                      outPoint = duration video, category = None\<rparr>,
                                 w'))))))"

text \<open>The \<^verbatim>\<open>for\<close> loop of the \<^verbatim>\<open>ANALYZE_VIDEOS\<close> handler, from index \<open>i\<close> on.\<close>

fun analyze_loop :: "analysis_env \<Rightarrow> nat \<Rightarrow> nat \<Rightarrow> VideoFile list \<Rightarrow> VideoClip list \<Rightarrow> world
    \<Rightarrow> VideoClip list \<times> world" where
  "analyze_loop env tot i [] analyzedClips w = (analyzedClips, w)"
| "analyze_loop env tot i (video # rest) analyzedClips w =
     (let w1 = sendProgress
                 \<lparr>stage = analyzing, current = i + 1, total = tot,
                  currentFile = Some (filename video),
                  message = Some (''Analyzing '' @ filename video @ ''...'')\<rparr> w
      in case analyzeVideo env video w1 of
           (Inr clip, w2) \<Rightarrow> analyze_loop env tot (i + 1) rest (analyzedClips @ [clip]) w2
         | (Inl e, w2) \<Rightarrow>
             analyze_loop env tot (i + 1) rest analyzedClips
               (console_error (''Failed to analyze '' @ filename video @ '':'') e w2))"

definition analyzeVideos :: "analysis_env \<Rightarrow> VideoFile list \<Rightarrow> world \<Rightarrow> VideoClip list \<times> world" where
  "analyzeVideos env videoFiles w =
     (case analyze_loop env (length videoFiles) 0 videoFiles [] w of
        (analyzedClips, w1) \<Rightarrow>
          (let w2 = sendProgress
                      \<lparr>stage = complete, current = length videoFiles, total = length videoFiles,
                       currentFile = None, message = Some ''Analysis complete!''\<rparr> w1
           in (analyzedClips, setClips analyzedClips w2)))"

section \<open>Notions used to state the properties\<close>

text \<open>
  The definitions below are not part of the program. They name what the properties speak
  about (the rendered duration of a clip, the sum of the rendered durations before a
  position, the outcome of one video of a batch, the events a batch sends) and fix the
  concrete inputs on which the properties are instantiated.
\<close>

subsection \<open>Notions\<close>

text \<open>The number behind a \<^verbatim>\<open>number\<close> that is not \<^verbatim>\<open>NaN\<close>.\<close>

fun num_value :: "number \<Rightarrow> real" where
  "num_value (Num a) = a"
| "num_value NaN = 0"

text \<open>The rendered duration of a clip, and the sum of the rendered durations of the first \<open>i\<close>
  clips (added from the left, as the serializer does).\<close>

definition renderedDuration :: "VideoClip \<Rightarrow> number" where
  "renderedDuration c = jsub (outPoint c) (inPoint c)"

definition offsetAt :: "VideoClip list \<Rightarrow> nat \<Rightarrow> number" where
  "offsetAt cs i = foldl jadd (Num 0) (map renderedDuration (take i cs))"

text \<open>The result of analysing a video when it is the \<open>k\<close>-th to ask for a temporary directory
  (the result does not depend on the rest of the state), and the clips of a list of results.\<close>

definition outcome :: "analysis_env \<Rightarrow> VideoFile \<Rightarrow> nat \<Rightarrow> thrown + VideoClip" where
  "outcome env video k =
     fst (analyzeVideo env video
            \<lparr>dirs = Map.empty, mkdtemp_calls = k, sent = [], console = [], stored_clips = []\<rparr>)"

fun successes :: "('e + 'a) list \<Rightarrow> 'a list" where
  "successes [] = []"
| "successes (Inl e # rs) = successes rs"
| "successes (Inr c # rs) = c # successes rs"

text \<open>The two kinds of event the batch handler sends, and the clip \<^verbatim>\<open>analyzeVideo\<close> builds from
  a video, a thumbnail and a score.\<close>

definition analyzingEvent :: "nat \<Rightarrow> nat \<Rightarrow> VideoFile \<Rightarrow> AnalysisProgress" where
  "analyzingEvent i n video =
     \<lparr>stage = analyzing, current = i + 1, total = n, currentFile = Some (filename video),
      message = Some (''Analyzing '' @ filename video @ ''...'')\<rparr>"

definition completeEvent :: "nat \<Rightarrow> AnalysisProgress" where
  "completeEvent n =
     \<lparr>stage = complete, current = n, total = n, currentFile = None,
      message = Some ''Analysis complete!''\<rparr>"

definition analyzedClip :: "VideoFile \<Rightarrow> string \<Rightarrow> number \<Rightarrow> VideoClip" where
  "analyzedClip video thumb overall =
     \<lparr>file_id = file_id video, path = path video, filename = filename video,
      directory = directory video, duration = duration video, width = width video,
      height = height video, fps = fps video, codec = codec video, thumbnail = Some thumb,
      focusScore = overall, compositionScore = None, audioScore = None,
      overallScore = overall, selected = False, inPoint = Num 0,
      outPoint = duration video, category = None\<rparr>"

subsection \<open>Concrete inputs\<close>

text \<open>Clips for the serializer: three selected clips of 5, 3 and 7 seconds, two unselected
  clips, and a clip whose names contain markup characters.\<close>

definition sampleClip :: "string \<Rightarrow> string \<Rightarrow> real \<Rightarrow> bool \<Rightarrow> VideoClip" where
  "sampleClip p f d sel =
     \<lparr>file_id = p, path = p, filename = f, directory = ''A-Roll'', duration = Num d,
      width = Num 1920, height = Num 1080, fps = Num 30, codec = ''h264'', thumbnail = None,
      focusScore = Num 80, compositionScore = None, audioScore = None, overallScore = Num 80,
      selected = sel, inPoint = Num 0, outPoint = Num d, category = None\<rparr>"

definition threeClips :: "VideoClip list" where
  "threeClips = [sampleClip ''/v/a.mp4'' ''a.mp4'' 5 True, sampleClip ''/v/b.mp4'' ''b.mp4'' 3 True,
                 sampleClip ''/v/c.mp4'' ''c.mp4'' 7 True]"

definition quietClips :: "VideoClip list" where
  "quietClips = [sampleClip ''/v/a.mp4'' ''a.mp4'' 5 False, sampleClip ''/v/b.mp4'' ''b.mp4'' 3 False]"

definition markupClip :: VideoClip where
  "markupClip = sampleClip ''/my videos/Tom & Jerry.mp4'' ''Tom & <Jerry>.mp4'' 5 True"


text \<open>Frames: a flat \<open>3 \<times> 3\<close> buffer, a \<open>4 \<times> 3\<close> buffer with one bright pixel, and a
  \<open>2 \<times> 2\<close> buffer.\<close>

definition flatImage :: RawImage where
  "flatImage = \<lparr>data = replicate 9 128, info_width = 3, info_height = 3\<rparr>"

definition edgeImage :: RawImage where
  "edgeImage = \<lparr>data = [0, 0, 0, 0,  0, 10, 0, 0,  0, 0, 0, 0], info_width = 4, info_height = 3\<rparr>"

definition tinyImage :: RawImage where
  "tinyImage = \<lparr>data = [10, 200, 30, 40], info_width = 2, info_height = 2\<rparr>"

text \<open>An environment in which ffmpeg writes three frames (out of order) for every video but
  \<^verbatim>\<open>/v/broken.mp4\<close>, which it cannot decode; the first frame decodes to the buffer with
  the bright pixel, the others to the flat one.\<close>

definition studio :: analysis_env where
  "studio =
     \<lparr>tmpdir = ''/tmp'',
      mkdtemp = (\<lambda>pre n. Inr (pre @ nat_digits n)),
      ffmpeg = (\<lambda>videoPath pattern interval.
                  if videoPath = ''/v/broken.mp4'' then ([], Some (Error ''ffmpeg exited with code 1''))
                  else ([''frame-0002.png'', ''frame-0001.png'', ''frame-0003.png''], None)),
      sharp_raw = (\<lambda>p. if suffix ''frame-0001.png'' p then Inr edgeImage
                        else if suffix ''tiny.png'' p then Inr tinyImage else Inr flatImage),
      sharp_thumbnail = (\<lambda>p. case p of None \<Rightarrow> Inl (Error ''Invalid input'')
                                     | Some f \<Rightarrow> Inr (''jpeg of '' @ f))\<rparr>"

definition sampleVideo :: "string \<Rightarrow> string \<Rightarrow> VideoFile" where
  "sampleVideo p f =
     \<lparr>file_id = p, path = p, filename = f, directory = ''A-Roll'', duration = Num 12,
      width = Num 1920, height = Num 1080, fps = Num 30, codec = ''h264'', thumbnail = None\<rparr>"

definition emptyWorld :: world where
  "emptyWorld = \<lparr>dirs = Map.empty, mkdtemp_calls = 0, sent = [], console = [], stored_clips = []\<rparr>"

definition batchOfThree :: "VideoFile list" where
  "batchOfThree = [sampleVideo ''/v/a.mp4'' ''a.mp4'', sampleVideo ''/v/broken.mp4'' ''broken.mp4'',
                   sampleVideo ''/v/c.mp4'' ''c.mp4'']"

section \<open>Properties\<close>

lemma set_Set_insert_all: "set (Set_insert_all acc xs) = set acc \<union> set xs"
  by (induction xs arbitrary: acc) auto

lemma distinct_Set_insert_all: "distinct acc \<Longrightarrow> distinct (Set_insert_all acc xs)"
  by (induction xs arbitrary: acc) auto

lemma set_Array_from_Set: "set (Array_from_Set xs) = set xs"
  by (simp add: Array_from_Set_def set_Set_insert_all)

lemma distinct_Array_from_Set: "distinct (Array_from_Set xs)"
  by (simp add: Array_from_Set_def distinct_Set_insert_all)

lemma length_Array_from_Set: "length (Array_from_Set xs) = card (set xs)"
  using distinct_card [OF distinct_Array_from_Set, of xs] by (simp add: set_Array_from_Set)

lemma map_throwing_Inr:
  "(\<And>x. x \<in> set xs \<Longrightarrow> f x = Inr (g x)) \<Longrightarrow> map_throwing f xs = Inr (map g xs)"
  by (induction xs) auto

lemma asset_found:
  assumes "p \<in> path ` set sel"
  shows "asset fmt sel p i = Inr (assetXml fmt (the (find (\<lambda>c. path c = p) sel)) p i)"
proof -
  from assms have "find (\<lambda>c. path c = p) sel \<noteq> None"
    by (auto simp: find_None_iff)
  then show ?thesis by (auto simp: asset_def)
qed

lemma assets_Inr:
  assumes "set U \<subseteq> path ` set sel"
  shows "assets fmt sel U =
    Inr (map (\<lambda>(p, i). assetXml fmt (the (find (\<lambda>c. path c = p) sel)) p i) (zip U [0..<length U]))"
  unfolding assets_def
proof (rule map_throwing_Inr)
  fix x assume "x \<in> set (zip U [0..<length U])"
  then have "fst x \<in> set U" by (metis prod.collapse set_zip_leftD)
  with assms have "fst x \<in> path ` set sel" by blast
  then show "(case x of (p, index) \<Rightarrow> asset fmt sel p index) =
     Inr (case x of (p, i) \<Rightarrow> assetXml fmt (the (find (\<lambda>c. path c = p) sel)) p i)"
    by (cases x) (simp add: asset_found)
qed

lemma timelineClips_closed:
  "timelineClips fmt U off cs =
     (map (\<lambda>i. clipXml fmt U (foldl jadd off (map renderedDuration (take i cs))) (cs ! i)) [0..<length cs],
      foldl jadd off (map renderedDuration cs))"
proof (induction cs arbitrary: off)
  case Nil
  show ?case by simp
next
  case (Cons c cs)
  let ?off' = "jadd off (renderedDuration c)"
  have a: "timelineClips fmt U off (c # cs) =
      (clipXml fmt U off c # fst (timelineClips fmt U ?off' cs), snd (timelineClips fmt U ?off' cs))"
    by (simp add: renderedDuration_def Let_def split: prod.split)
  have b: "map (\<lambda>i. clipXml fmt U (foldl jadd off (map renderedDuration (take i (c # cs)))) ((c # cs) ! i)) [0..<Suc (length cs)]
      = clipXml fmt U off c # map (\<lambda>i. clipXml fmt U (foldl jadd ?off' (map renderedDuration (take i cs))) (cs ! i)) [0..<length cs]"
    by (simp add: upt_conv_Cons map_Suc_upt [symmetric] del: upt_Suc)
  show ?case
    unfolding a Cons.IH using b by (simp del: upt_Suc)
qed

lemma foldl_jadd_Num:
  "foldl jadd (Num a) (map Num xs) = Num (a + sum_list xs)"
  by (induction xs arbitrary: a) (auto simp: algebra_simps)

lemma generateFCPXML_closed:
  "generateFCPXML fmt clips pn =
     Inr (document
       (join ''\<newline>'' (map (\<lambda>(p, i). assetXml fmt (the (find (\<lambda>c. path c = p) (filter selected clips))) p i)
           (zip (Array_from_Set (map path (filter selected clips)))
                [0..<length (Array_from_Set (map path (filter selected clips)))])))
       pn
       (numberToString fmt (offsetAt (filter selected clips) (length (filter selected clips))))
       (join ''\<newline>'' (map (\<lambda>i. clipXml fmt (Array_from_Set (map path (filter selected clips)))
               (offsetAt (filter selected clips) i) (filter selected clips ! i))
           [0..<length (filter selected clips)])))"
proof -
  have "set (Array_from_Set (map path (filter selected clips))) \<subseteq> path ` set (filter selected clips)"
    by (simp add: set_Array_from_Set)
  from assets_Inr [OF this, of fmt] show ?thesis
    by (simp add: generateFCPXML_def Let_def timelineClips_closed offsetAt_def)
qed






lemma generateFCPXML_none_selected:
  "\<forall>c\<in>set clips. \<not> selected c \<Longrightarrow> generateFCPXML fmt clips pn = Inr (document [] pn ''0'' [])"
proof -
  assume "\<forall>c\<in>set clips. \<not> selected c"
  then have "filter selected clips = []" by (simp add: filter_empty_conv)
  then show ?thesis
    by (simp add: generateFCPXML_def Array_from_Set_def assets_def int_to_string_def nat_digits.simps)
qed

text \<open>
  Claim C9. Only the selected clips reach the output: the document is that of the selected
  clips alone; it holds one \<^verbatim>\<open>asset\<close> element per distinct path of a selected clip and one
  \<^verbatim>\<open>asset-clip\<close> element per selected clip; and when no clip is selected the serializer
  returns (it does not throw) the document with an empty resources list and an empty spine.
\<close>

theorem only_selected_serialized:
  "generateFCPXML fmt clips pn = generateFCPXML fmt (filter selected clips) pn
   \<and> (\<exists>as xs off.
         assets fmt (filter selected clips) (Array_from_Set (map path (filter selected clips))) = Inr as
       \<and> timelineClips fmt (Array_from_Set (map path (filter selected clips))) (Num 0)
             (filter selected clips) = (xs, off)
       \<and> generateFCPXML fmt clips pn =
             Inr (document (join ''\<newline>'' as) pn (numberToString fmt off) (join ''\<newline>'' xs))
       \<and> length as = card (path ` {c \<in> set clips. selected c})
       \<and> length xs = length (filter selected clips))
   \<and> ((\<forall>c\<in>set clips. \<not> selected c) \<longrightarrow>
         generateFCPXML fmt clips pn = Inr (document [] pn ''0'' []))"
proof (intro conjI impI)
  show "generateFCPXML fmt clips pn = generateFCPXML fmt (filter selected clips) pn"
    by (simp add: generateFCPXML_def)
next
  let ?sel = "filter selected clips"
  let ?U = "Array_from_Set (map path ?sel)"
  have sub: "set ?U \<subseteq> path ` set ?sel"
    by (simp add: set_Array_from_Set)
  obtain as where as: "assets fmt ?sel ?U = Inr as" and las: "length as = length ?U"
    using assets_Inr [OF sub, of fmt] by simp
  obtain xs off where xs: "timelineClips fmt ?U (Num 0) ?sel = (xs, off)"
    by (cases "timelineClips fmt ?U (Num 0) ?sel")
  have lxs: "length xs = length ?sel"
    using xs by (auto simp: timelineClips_closed)
  have "length as = card (path ` {c \<in> set clips. selected c})"
    by (simp add: las length_Array_from_Set)
  moreover have "generateFCPXML fmt clips pn =
      Inr (document (join ''\<newline>'' as) pn (numberToString fmt off) (join ''\<newline>'' xs))"
    by (simp add: generateFCPXML_def Let_def as xs)
  ultimately show "\<exists>as xs off.
         assets fmt ?sel ?U = Inr as \<and> timelineClips fmt ?U (Num 0) ?sel = (xs, off)
       \<and> generateFCPXML fmt clips pn =
             Inr (document (join ''\<newline>'' as) pn (numberToString fmt off) (join ''\<newline>'' xs))
       \<and> length as = card (path ` {c \<in> set clips. selected c})
       \<and> length xs = length ?sel"
    using as xs lxs by blast
next
  assume "\<forall>c\<in>set clips. \<not> selected c"
  then show "generateFCPXML fmt clips pn = Inr (document [] pn ''0'' [])"
    by (rule generateFCPXML_none_selected)
qed

text \<open>
  Two unselected clips give the empty document; put before three selected clips they change
  nothing.
\<close>

theorem only_selected_serialized_witness:
  "generateFCPXML (\<lambda>x. []) quietClips ''Wedding'' = Inr (document [] ''Wedding'' ''0'' [])
   \<and> generateFCPXML (\<lambda>x. []) (quietClips @ threeClips) ''Wedding'' =
       generateFCPXML (\<lambda>x. []) threeClips ''Wedding''"
proof -
  have h: "\<forall>c\<in>set quietClips. \<not> selected c"
    by (simp add: quietClips_def sampleClip_def)
  have f: "filter selected (quietClips @ threeClips) = threeClips"
    by (simp add: quietClips_def threeClips_def sampleClip_def)
  from only_selected_serialized [of "\<lambda>x. []" quietClips "''Wedding''"] h
  have "generateFCPXML (\<lambda>x. []) quietClips ''Wedding'' = Inr (document [] ''Wedding'' ''0'' [])"
    by blast
  moreover from only_selected_serialized [of "\<lambda>x. []" "quietClips @ threeClips" "''Wedding''"]
  have "generateFCPXML (\<lambda>x. []) (quietClips @ threeClips) ''Wedding'' =
       generateFCPXML (\<lambda>x. []) threeClips ''Wedding''"
    unfolding f by blast
  ultimately show ?thesis by blast
qed

lemma sublist_skip: "sublist x ys \<Longrightarrow> sublist x (p @ ys)"
  by (meson sublist_append_leftI sublist_order.order.trans)

lemma sublist_three: "sublist (x @ y @ z) (x @ y @ z @ ss)"
  by (metis append.assoc sublist_append_rightI)

lemma sublist_join: "x \<in> set xs \<Longrightarrow> sublist x (join sep xs)"
proof (induction sep xs rule: join.induct)
  case (3 sep a b ys)
  show ?case
  proof (cases "x = a")
    case True
    then show ?thesis by simp
  next
    case False
    with 3 have "sublist x (join sep (b # ys))" by simp
    then show ?thesis
      by (simp only: join.simps) (intro sublist_skip)
  qed
qed simp_all

lemma document_resources: "sublist r (document r pn d s)"
  unfolding document_def by (rule sublist_append_rightI | rule sublist_skip)+

lemma document_spine: "sublist s (document r pn d s)"
  unfolding document_def by (rule sublist_append_rightI | rule sublist_skip)+

lemma document_project:
  \<open>sublist (''      <project name="'' @ pn @ ''">\<newline>'') (document r pn d s)\<close>
  unfolding document_def by (rule sublist_three | rule sublist_skip)+

lemma clipXml_name:
  \<open>sublist (''s" name="'' @ filename c @ ''" start="'') (clipXml fmt U off c)\<close>
  unfolding clipXml_def Let_def by (rule sublist_three | rule sublist_skip)+

lemma assetXml_src:
  \<open>sublist (''" src="file://'' @ encodeURI p @ ''" start="0s" duration="'') (assetXml fmt clip p i)\<close>
  unfolding assetXml_def by (rule sublist_three | rule sublist_skip)+

text \<open>
  Claim C10, as amended. The project name and the file name of every selected clip stand in
  the document exactly as given, between the quotes of their attributes; the path of every
  selected clip stands there after \<^verbatim>\<open>encodeURI\<close>, and nothing is escaped for XML.
\<close>

theorem interpolation_without_xml_escaping:
  \<open>\<exists>xml. generateFCPXML fmt clips pn = Inr xml
     \<and> sublist (''      <project name="'' @ pn @ ''">\<newline>'') xml
     \<and> (\<forall>c\<in>set clips. selected c \<longrightarrow>
           sublist (''s" name="'' @ filename c @ ''" start="'') xml
         \<and> sublist (''" src="file://'' @ encodeURI (path c) @ ''" start="0s" duration="'') xml)\<close>
proof -
  let ?sel = "filter selected clips"
  let ?U = "Array_from_Set (map path ?sel)"
  let ?as = "map (\<lambda>(p, i). assetXml fmt (the (find (\<lambda>c. path c = p) ?sel)) p i) (zip ?U [0..<length ?U])"
  let ?xs = "map (\<lambda>i. clipXml fmt ?U (offsetAt ?sel i) (?sel ! i)) [0..<length ?sel]"
  let ?xml = "document (join ''\<newline>'' ?as) pn (numberToString fmt (offsetAt ?sel (length ?sel)))
                (join ''\<newline>'' ?xs)"
  have gen: "generateFCPXML fmt clips pn = Inr ?xml"
    by (rule generateFCPXML_closed)
  have proj: \<open>sublist (''      <project name="'' @ pn @ ''">\<newline>'') ?xml\<close>
    by (rule document_project)
  have each: \<open>sublist (''s" name="'' @ filename c @ ''" start="'') ?xml
         \<and> sublist (''" src="file://'' @ encodeURI (path c) @ ''" start="0s" duration="'') ?xml\<close>
    if c: "c \<in> set clips" "selected c" for c
  proof
    from c have "c \<in> set ?sel" by simp
    then obtain i where i: "i < length ?sel" "?sel ! i = c"
      by (metis in_set_conv_nth)
    then have "clipXml fmt ?U (offsetAt ?sel i) c \<in> set ?xs"
      by (auto simp: image_iff intro!: bexI [of _ i])
    then have "sublist (clipXml fmt ?U (offsetAt ?sel i) c) (join ''\<newline>'' ?xs)"
      by (rule sublist_join)
    then have "sublist (clipXml fmt ?U (offsetAt ?sel i) c) ?xml"
      using document_spine sublist_order.order.trans by blast
    then show \<open>sublist (''s" name="'' @ filename c @ ''" start="'') ?xml\<close>
      using clipXml_name sublist_order.order.trans by blast
  next
    from c have "path c \<in> set ?U" by (simp add: set_Array_from_Set)
    then obtain j where j: "j < length ?U" "?U ! j = path c"
      by (metis in_set_conv_nth)
    then have "(path c, j) \<in> set (zip ?U [0..<length ?U])"
      by (auto simp: in_set_zip intro!: exI [of _ j])
    then have "assetXml fmt (the (find (\<lambda>x. path x = path c) ?sel)) (path c) j \<in> set ?as"
      by (force simp: image_iff)
    then have "sublist (assetXml fmt (the (find (\<lambda>x. path x = path c) ?sel)) (path c) j)
                 (join ''\<newline>'' ?as)"
      by (rule sublist_join)
    then have "sublist (assetXml fmt (the (find (\<lambda>x. path x = path c) ?sel)) (path c) j) ?xml"
      using document_resources sublist_order.order.trans by blast
    then show \<open>sublist (''" src="file://'' @ encodeURI (path c) @ ''" start="0s" duration="'') ?xml\<close>
      using assetXml_src sublist_order.order.trans by blast
  qed
  from gen proj each show ?thesis by blast
qed

text \<open>
  A file name and a project name with \<^verbatim>\<open>&\<close> and \<^verbatim>\<open><\<close>: both characters stand raw
  inside the attribute values, which XML 1.0 forbids; the \<^verbatim>\<open>&\<close> of the path survives
  \<^verbatim>\<open>encodeURI\<close> as well.
\<close>

theorem interpolation_without_xml_escaping_witness:
  \<open>\<exists>xml. generateFCPXML (\<lambda>x. []) [markupClip] ''A&B <cut>'' = Inr xml
     \<and> sublist ''      <project name="A&B <cut>">\<newline>'' xml
     \<and> sublist ''s" name="Tom & <Jerry>.mp4" start="'' xml
     \<and> sublist ''" src="file:///my%20videos/Tom%20&%20Jerry.mp4" start="0s" duration="'' xml\<close>
proof -
  have h: "markupClip \<in> set [markupClip]" "selected markupClip"
    by (simp_all add: markupClip_def sampleClip_def)
  have f: \<open>filename markupClip = ''Tom & <Jerry>.mp4''\<close>
    by (simp add: markupClip_def sampleClip_def)
  have e: \<open>encodeURI (path markupClip) = ''/my%20videos/Tom%20&%20Jerry.mp4''\<close>
    by (simp add: markupClip_def sampleClip_def encodeURI_def uri_unescaped_def percent_encode_def)
  from interpolation_without_xml_escaping [of "\<lambda>x. []" "[markupClip]" \<open>''A&B <cut>''\<close>] h
  obtain xml where g: \<open>generateFCPXML (\<lambda>x. []) [markupClip] ''A&B <cut>'' = Inr xml\<close>
    and p: \<open>sublist (''      <project name="'' @ ''A&B <cut>'' @ ''">\<newline>'') xml\<close>
    and n: \<open>sublist (''s" name="'' @ filename markupClip @ ''" start="'') xml\<close>
    and s: \<open>sublist (''" src="file://'' @ encodeURI (path markupClip) @ ''" start="0s" duration="'') xml\<close>
    by blast
  from p have p': \<open>sublist ''      <project name="A&B <cut>">\<newline>'' xml\<close>
    by simp
  from n have n': \<open>sublist ''s" name="Tom & <Jerry>.mp4" start="'' xml\<close>
    unfolding f by simp
  from s have s': \<open>sublist ''" src="file:///my%20videos/Tom%20&%20Jerry.mp4" start="0s" duration="'' xml\<close>
    unfolding e by simp
  from g p' n' s' show ?thesis by blast
qed

text \<open>
  Claim C10 as stated fails for the path: a path with a space is written percent-encoded, and
  the path itself occurs nowhere in the document.
\<close>

theorem path_not_verbatim:
  \<open>generateFCPXML (\<lambda>x. []) [markupClip] ''P'' =
     Inr (document
       ''    <asset id="r1" src="file:///my%20videos/Tom%20&%20Jerry.mp4" start="0s" duration="5s" hasVideo="1" format="r0" hasAudio="1"/>''
       ''P'' ''5''
       (''      <asset-clip ref="r1" offset="0s" name="Tom & <Jerry>.mp4" start="0s" duration="5s">\<newline>''
        @ ''        <note>Focus Score: 80</note>\<newline>''
        @ ''      </asset-clip>''))
   \<and> \<not> sublist (path markupClip) (document
       ''    <asset id="r1" src="file:///my%20videos/Tom%20&%20Jerry.mp4" start="0s" duration="5s" hasVideo="1" format="r0" hasAudio="1"/>''
       ''P'' ''5''
       (''      <asset-clip ref="r1" offset="0s" name="Tom & <Jerry>.mp4" start="0s" duration="5s">\<newline>''
        @ ''        <note>Focus Score: 80</note>\<newline>''
        @ ''      </asset-clip>''))\<close>
proof
  show \<open>generateFCPXML (\<lambda>x. []) [markupClip] ''P'' =
     Inr (document
       ''    <asset id="r1" src="file:///my%20videos/Tom%20&%20Jerry.mp4" start="0s" duration="5s" hasVideo="1" format="r0" hasAudio="1"/>''
       ''P'' ''5''
       (''      <asset-clip ref="r1" offset="0s" name="Tom & <Jerry>.mp4" start="0s" duration="5s">\<newline>''
        @ ''        <note>Focus Score: 80</note>\<newline>''
        @ ''      </asset-clip>''))\<close>
    by (simp add: generateFCPXML_def markupClip_def sampleClip_def Array_from_Set_def assets_def
        asset_def assetXml_def clipXml_def encodeURI_def uri_unescaped_def percent_encode_def
        int_to_string_def nat_digits.simps)
  have p: \<open>path markupClip = ''/my videos/Tom & Jerry.mp4''\<close>
    by (simp add: markupClip_def sampleClip_def)
  show \<open>\<not> sublist (path markupClip) (document
       ''    <asset id="r1" src="file:///my%20videos/Tom%20&%20Jerry.mp4" start="0s" duration="5s" hasVideo="1" format="r0" hasAudio="1"/>''
       ''P'' ''5''
       (''      <asset-clip ref="r1" offset="0s" name="Tom & <Jerry>.mp4" start="0s" duration="5s">\<newline>''
        @ ''        <note>Focus Score: 80</note>\<newline>''
        @ ''      </asset-clip>''))\<close>
    unfolding p by code_simp
qed

lemma foldl_square_Num:
  "foldl (\<lambda>acc val. jadd acc (Math_pow (jsub val (Num m)) 2)) (Num a) (map Num rs) =
     Num (a + (\<Sum>r\<leftarrow>rs. (r - m) ^ 2))"
  by (induction rs arbitrary: a) (auto simp: algebra_simps)

lemma all_Num: "NaN \<notin> set l \<Longrightarrow> l = map Num (map num_value l)"
proof (induction l)
  case (Cons v l)
  then show ?case by (cases v) auto
qed simp

lemma sample_in_range: "idx < length d \<Longrightarrow> sample d idx = Num (real (unat (d ! idx)))"
  by (simp add: sample_def)

lemma lap_indices:
  assumes "(y + 1) * w + x < n" "0 < w"
  shows "y * w + x < n" "(y - 1) * w + x < n" "y * w + (x - 1) < n" "y * w + (x + 1) < (n::nat)"
proof -
  have a: "(y + 1) * w = y * w + w" by (simp add: algebra_simps)
  have b: "(y - 1) * w \<le> y * w" by (rule mult_le_mono1) simp
  from assms a show "y * w + x < n" by linarith
  from assms a b show "(y - 1) * w + x < n" by linarith
  from assms a show "y * w + (x - 1) < n" by linarith
  from assms a show "y * w + (x + 1) < n" by linarith
qed

lemma lap_Num:
  assumes "(y + 1) * info_width img + x < length (data img)" "0 < info_width img"
  shows "\<exists>r. lap img y x = Num r \<and> 0 \<le> r"
  using lap_indices [OF assms] assms(1)
  by (simp add: lap_def Let_def sample_in_range)

lemma lap_flat:
  assumes "(y + 1) * info_width img + x < length (data img)" "0 < info_width img"
    and "\<forall>b\<in>set (data img). b = c"
  shows "lap img y x = Num 0"
proof -
  have "\<And>i. i < length (data img) \<Longrightarrow> data img ! i = c"
    using assms(3) by simp
  then show ?thesis
    using lap_indices [OF assms(1,2)] assms(1)
    by (simp add: lap_def Let_def sample_in_range)
qed

lemma interior_index:
  assumes "y < h - 1" "x < w - 1" "3 \<le> (w::nat)"
  shows "(y + 1) * w + x < w * h"
proof -
  from assms have "y + 2 \<le> h" by simp
  then have "(y + 2) * w \<le> h * w" by (rule mult_le_mono1)
  moreover have "(y + 2) * w = (y + 1) * w + w" by (simp add: algebra_simps)
  moreover from assms have "x < w" by simp
  ultimately show ?thesis by (simp add: mult.commute)
qed

lemma in_laplacian:
  "v \<in> set (laplacian img) \<Longrightarrow>
   \<exists>y x. 1 \<le> y \<and> y < info_height img - 1 \<and> 1 \<le> x \<and> x < info_width img - 1 \<and> v = lap img y x"
  by (auto simp: laplacian_def) blast

lemma length_laplacian:
  "length (laplacian img) = (info_width img - 2) * (info_height img - 2)"
  by (simp add: laplacian_def length_concat comp_def sum_list_triv mult.commute numeral_2_eq_2)

lemma laplacian_valid:
  assumes "3 \<le> info_width img" "length (data img) = info_width img * info_height img"
    and "v \<in> set (laplacian img)"
  shows "\<exists>r. v = Num r \<and> 0 \<le> r"
proof -
  from in_laplacian [OF assms(3)] obtain y x where
    yx: "y < info_height img - 1" "x < info_width img - 1" "v = lap img y x" by blast
  from interior_index [OF yx(1,2) assms(1)] assms(2)
  have "(y + 1) * info_width img + x < length (data img)" by simp
  moreover from assms(1) have "0 < info_width img" by simp
  ultimately show ?thesis unfolding yx(3) by (rule lap_Num)
qed

lemma laplacian_flat:
  assumes "3 \<le> info_width img" "length (data img) = info_width img * info_height img"
    and "\<forall>b\<in>set (data img). b = c" and "v \<in> set (laplacian img)"
  shows "v = Num 0"
proof -
  from in_laplacian [OF assms(4)] obtain y x where
    yx: "y < info_height img - 1" "x < info_width img - 1" "v = lap img y x" by blast
  from interior_index [OF yx(1,2) assms(1)] assms(2)
  have "(y + 1) * info_width img + x < length (data img)" by simp
  moreover from assms(1) have "0 < info_width img" by simp
  ultimately show ?thesis unfolding yx(3) using assms(3) by (rule lap_flat)
qed

lemma zeros_sum: "\<forall>r\<in>set rs. r = (0::real) \<Longrightarrow> sum_list rs = 0"
  by (induction rs) auto

lemma zeros_squares: "\<forall>r\<in>set rs. r = (0::real) \<Longrightarrow> (\<Sum>r\<leftarrow>rs. (r - 0) ^ 2) = 0"
  by (induction rs) auto

lemma variance_Num:
  assumes "laplacian img = map Num rs" "rs \<noteq> []"
  shows "variance img =
    Num ((\<Sum>r\<leftarrow>rs. (r - sum_list rs / real (length rs)) ^ 2) / real (length rs))"
  using assms by (simp add: variance_def Let_def foldl_jadd_Num foldl_square_Num)

lemma score_Num: "variance img = Num v \<Longrightarrow> score img = Num (min 100 v)"
  by (simp add: score_def)

text \<open>
  Claim C3. For a decoded grayscale buffer of at least \<open>3 \<times> 3\<close> samples (one byte per pixel),
  the variance of the Laplacian responses is a number that is not negative, and the focus
  score is a number between \<open>0\<close> and \<open>100\<close>; when all samples are equal, variance and score
  are exactly \<open>0\<close>.
\<close>

theorem focus_score_range:
  assumes "sharp_raw env imagePath = Inr img"
    and "3 \<le> info_width img" and "3 \<le> info_height img"
    and "length (data img) = info_width img * info_height img"
  shows "(\<exists>v s. variance img = Num v \<and> 0 \<le> v
            \<and> calculateFocusScore env imagePath = Inr (Num s) \<and> 0 \<le> s \<and> s \<le> 100)
       \<and> ((\<forall>b\<in>set (data img). b = c) \<longrightarrow>
            variance img = Num 0 \<and> calculateFocusScore env imagePath = Inr (Num 0))"
proof -
  let ?l = "laplacian img"
  let ?rs = "map num_value ?l"
  have calc: "calculateFocusScore env imagePath = Inr (score img)"
    using assms(1) by (simp add: calculateFocusScore_def)
  have "NaN \<notin> set ?l"
    using laplacian_valid [OF assms(2,4)] by blast
  then have l: "?l = map Num ?rs" by (rule all_Num)
  have "0 < length ?l"
    using assms(2,3) by (simp add: length_laplacian)
  then have ne: "?rs \<noteq> []" by simp
  let ?m = "sum_list ?rs / real (length ?rs)"
  let ?v = "(\<Sum>r\<leftarrow>?rs. (r - ?m) ^ 2) / real (length ?rs)"
  have var: "variance img = Num ?v"
    using l ne by (rule variance_Num)
  have "0 \<le> (\<Sum>r\<leftarrow>?rs. (r - ?m) ^ 2)"
    by (rule sum_list_nonneg) auto
  then have v0: "0 \<le> ?v" by simp
  have sc: "score img = Num (min 100 ?v)"
    using var by (rule score_Num)
  have first: "\<exists>v s. variance img = Num v \<and> 0 \<le> v
            \<and> calculateFocusScore env imagePath = Inr (Num s) \<and> 0 \<le> s \<and> s \<le> 100"
    using var v0 calc sc by (intro exI [of _ ?v] exI [of _ "min 100 ?v"]) simp
  have second: "variance img = Num 0 \<and> calculateFocusScore env imagePath = Inr (Num 0)"
    if flat: "\<forall>b\<in>set (data img). b = c"
  proof -
    have "\<forall>v\<in>set ?l. v = Num 0"
      using laplacian_flat [OF assms(2,4) flat] by blast
    then have z: "\<forall>r\<in>set ?rs. r = 0" by auto
    then have "sum_list ?rs = 0" by (rule zeros_sum)
    then have m0: "?m = 0" by simp
    have "(\<Sum>r\<leftarrow>?rs. (r - ?m) ^ 2) = 0"
      unfolding m0 using z by (rule zeros_squares)
    then have v0': "?v = 0" by simp
    from var have "variance img = Num 0" by (simp only: v0')
    moreover from sc have "score img = Num 0" by (simp only: v0') simp
    ultimately show ?thesis using calc by simp
  qed
  from first second show ?thesis by blast
qed

text \<open>
  A \<open>4 \<times> 3\<close> buffer with one bright pixel, and a flat \<open>3 \<times> 3\<close> buffer.
\<close>

theorem focus_score_range_witness:
  "(\<exists>v s. variance edgeImage = Num v \<and> 0 \<le> v
      \<and> calculateFocusScore studio ''/tmp/video-culler-0/frame-0001.png'' = Inr (Num s)
      \<and> 0 \<le> s \<and> s \<le> 100)
   \<and> variance flatImage = Num 0
   \<and> calculateFocusScore studio ''/tmp/video-culler-0/frame-0002.png'' = Inr (Num 0)"
proof -
  have e: "sharp_raw studio ''/tmp/video-culler-0/frame-0001.png'' = Inr edgeImage"
    by (simp add: studio_def suffix_def)
  have f: "sharp_raw studio ''/tmp/video-culler-0/frame-0002.png'' = Inr flatImage"
    by (simp add: studio_def suffix_to_prefix)
  have ed: "3 \<le> info_width edgeImage" "3 \<le> info_height edgeImage"
      "length (data edgeImage) = info_width edgeImage * info_height edgeImage"
    by (simp_all add: edgeImage_def)
  have fd: "3 \<le> info_width flatImage" "3 \<le> info_height flatImage"
      "length (data flatImage) = info_width flatImage * info_height flatImage"
    by (simp_all add: flatImage_def)
  have flat: "\<forall>b\<in>set (data flatImage). b = 128"
    by (simp add: flatImage_def)
  from focus_score_range [OF e ed] focus_score_range [OF f fd, of 128] flat
  show ?thesis by blast
qed






lemma extractFrames_world:
  "snd (extractFrames env p d k w) =
     w\<lparr>dirs := (dirs w)(d \<mapsto> readdir w d @ fst (ffmpeg env p (path_join d ''frame-%04d.png'') k))\<rparr>"
  by (simp add: extractFrames_def Let_def split: prod.splits option.splits)

lemma extractFrames_fst:
  "readdir w d = [] \<Longrightarrow>
   fst (extractFrames env p d k w) =
     (case snd (ffmpeg env p (path_join d ''frame-%04d.png'') k) of
        Some e \<Rightarrow> Inl e
      | None \<Rightarrow> Inr (map (\<lambda>f. path_join d f)
                  (sort (filter (\<lambda>f. prefix ''frame-'' f)
                     (fst (ffmpeg env p (path_join d ''frame-%04d.png'') k))))))"
  by (simp add: extractFrames_def readdir_def Let_def split: prod.splits option.splits)

lemma analyzeVideo_fst:
  "fst (analyzeVideo env video w) =
     (case mkdtemp env (path_join (tmpdir env) ''video-culler-'') (mkdtemp_calls w) of
        Inl e \<Rightarrow> Inl e
      | Inr tempDir \<Rightarrow>
          (case fst (extractFrames env (path video) tempDir 1
                  (w\<lparr>dirs := (dirs w)(tempDir \<mapsto> []), mkdtemp_calls := Suc (mkdtemp_calls w)\<rparr>)) of
             Inl e \<Rightarrow> Inl e
           | Inr frames \<Rightarrow>
               (case map_throwing (calculateFocusScore env) frames of
                  Inl e \<Rightarrow> Inl e
                | Inr focusScores \<Rightarrow>
                    (case generateThumbnail env (at_index frames (length frames div 2)) of
                       Inl e \<Rightarrow> Inl e
                     | Inr thumb \<Rightarrow>
                         Inr (analyzedClip video thumb
                               (Math_round (jdiv (foldl jadd (Num 0) focusScores)
                                  (Num (real (length focusScores))))))))))"
  by (simp add: analyzeVideo_def analyzedClip_def Let_def split: sum.splits prod.splits)

lemma analyzeVideo_world:
  "snd (analyzeVideo env video w) =
     (case mkdtemp env (path_join (tmpdir env) ''video-culler-'') (mkdtemp_calls w) of
        Inl e \<Rightarrow> w\<lparr>mkdtemp_calls := Suc (mkdtemp_calls w)\<rparr>
      | Inr tempDir \<Rightarrow>
          w\<lparr>dirs := (dirs w)(tempDir \<mapsto>
                 fst (ffmpeg env (path video) (path_join tempDir ''frame-%04d.png'') 1)),
            mkdtemp_calls := Suc (mkdtemp_calls w)\<rparr>)"
proof (cases "mkdtemp env (path_join (tmpdir env) ''video-culler-'') (mkdtemp_calls w)")
  case (Inl e)
  then show ?thesis by (simp add: analyzeVideo_def)
next
  case (Inr tempDir)
  let ?w1 = "w\<lparr>dirs := (dirs w)(tempDir \<mapsto> []), mkdtemp_calls := Suc (mkdtemp_calls w)\<rparr>"
  have "snd (analyzeVideo env video w) = snd (extractFrames env (path video) tempDir 1 ?w1)"
    using Inr by (simp add: analyzeVideo_def Let_def split: sum.splits prod.splits)
  then show ?thesis
    using Inr by (simp add: extractFrames_world readdir_def)
qed

lemma analyzeVideo_outcome:
  "fst (analyzeVideo env video w) = outcome env video (mkdtemp_calls w)"
  by (simp add: outcome_def analyzeVideo_fst extractFrames_fst readdir_def split: sum.splits)

lemma analyzeVideo_calls: "mkdtemp_calls (snd (analyzeVideo env video w)) = Suc (mkdtemp_calls w)"
  by (simp add: analyzeVideo_world split: sum.splits)

lemma analyzeVideo_sent: "sent (snd (analyzeVideo env video w)) = sent w"
  by (simp add: analyzeVideo_world split: sum.splits)



lemma studio_frames:
  "sort (filter (\<lambda>f. prefix ''frame-'' f) [''frame-0002.png'', ''frame-0001.png'', ''frame-0003.png''])
     = [''frame-0001.png'', ''frame-0002.png'', ''frame-0003.png'']"
  by code_simp

lemma studio_outcome_a:
  "outcome studio (sampleVideo ''/v/a.mp4'' ''a.mp4'') 0 =
     Inr (analyzedClip (sampleVideo ''/v/a.mp4'' ''a.mp4'')
           ''data:image/jpeg;base64,jpeg of /tmp/video-culler-0/frame-0002.png'' (Num 33))"
  by code_simp


text \<open>
  Claim C6, as amended. The analysis of a video removes no directory; the temporary
  directory that \<^verbatim>\<open>mkdtemp\<close> created for it is still there when the analysis ends, whether
  it succeeded or failed, and holds the files that ffmpeg wrote.
\<close>

theorem temp_dir_left_in_place:
  "dom (dirs w) \<subseteq> dom (dirs (snd (analyzeVideo env video w)))
   \<and> (\<forall>tempDir.
         mkdtemp env (path_join (tmpdir env) ''video-culler-'') (mkdtemp_calls w) = Inr tempDir \<longrightarrow>
         dirs (snd (analyzeVideo env video w)) tempDir =
           Some (fst (ffmpeg env (path video) (path_join tempDir ''frame-%04d.png'') 1)))"
  by (auto simp: analyzeVideo_world split: sum.splits)

lemma studio_mkdtemp:
  "mkdtemp studio (path_join (tmpdir studio) ''video-culler-'') 0 = Inr ''/tmp/video-culler-0''"
  by (simp add: studio_def path_join_def nat_digits.simps)

text \<open>
  After a successful analysis the directory holds the three frames.
\<close>

theorem temp_dir_left_in_place_witness:
  "dirs (snd (analyzeVideo studio (sampleVideo ''/v/a.mp4'' ''a.mp4'') emptyWorld))
     ''/tmp/video-culler-0'' = Some [''frame-0002.png'', ''frame-0001.png'', ''frame-0003.png'']"
proof -
  have m: "mkdtemp studio (path_join (tmpdir studio) ''video-culler-'') (mkdtemp_calls emptyWorld)
      = Inr ''/tmp/video-culler-0''"
    by (simp add: emptyWorld_def studio_mkdtemp)
  have f: "fst (ffmpeg studio (path (sampleVideo ''/v/a.mp4'' ''a.mp4''))
             (path_join ''/tmp/video-culler-0'' ''frame-%04d.png'') 1)
      = [''frame-0002.png'', ''frame-0001.png'', ''frame-0003.png'']"
    by (simp add: studio_def sampleVideo_def)
  from temp_dir_left_in_place [of emptyWorld studio "sampleVideo ''/v/a.mp4'' ''a.mp4''"] m
  have "dirs (snd (analyzeVideo studio (sampleVideo ''/v/a.mp4'' ''a.mp4'') emptyWorld))
      ''/tmp/video-culler-0'' =
    Some (fst (ffmpeg studio (path (sampleVideo ''/v/a.mp4'' ''a.mp4''))
             (path_join ''/tmp/video-culler-0'' ''frame-%04d.png'') 1))"
    by blast
  then show ?thesis by (simp only: f)
qed

text \<open>
  Claim C6 as stated fails on both exit paths: after a successful analysis and after a
  failed one (ffmpeg error) the temporary directory still exists.
\<close>

theorem temp_dir_survives:
  "\<not> isl (fst (analyzeVideo studio (sampleVideo ''/v/a.mp4'' ''a.mp4'') emptyWorld))
   \<and> dirs (snd (analyzeVideo studio (sampleVideo ''/v/a.mp4'' ''a.mp4'') emptyWorld))
        ''/tmp/video-culler-0'' \<noteq> None
   \<and> isl (fst (analyzeVideo studio (sampleVideo ''/v/broken.mp4'' ''broken.mp4'') emptyWorld))
   \<and> dirs (snd (analyzeVideo studio (sampleVideo ''/v/broken.mp4'' ''broken.mp4'') emptyWorld))
        ''/tmp/video-culler-0'' \<noteq> None"
proof -
  have a: "\<not> isl (outcome studio (sampleVideo ''/v/a.mp4'' ''a.mp4'') 0)"
    by (simp add: studio_outcome_a)
  have b: "isl (outcome studio (sampleVideo ''/v/broken.mp4'' ''broken.mp4'') 0)"
    by code_simp
  have c: "mkdtemp_calls emptyWorld = 0" by (simp add: emptyWorld_def)
  show ?thesis
    unfolding analyzeVideo_outcome c using a b
    by (simp add: analyzeVideo_world emptyWorld_def studio_mkdtemp)
qed

lemma successes_append: "successes (xs @ ys) = successes xs @ successes ys"
  by (induction xs rule: successes.induct) simp_all

lemma analyze_loop_result:
  "fst (analyze_loop env n i vs acc w) =
     acc @ successes (map (\<lambda>j. outcome env (vs ! j) (mkdtemp_calls w + j)) [0..<length vs])"
proof (induction vs arbitrary: i acc w)
  case Nil
  show ?case by simp
next
  case (Cons v vs)
  let ?w1 = "sendProgress \<lparr>stage = analyzing, current = i + 1, total = n,
                  currentFile = Some (filename v),
                  message = Some (''Analyzing '' @ filename v @ ''...'')\<rparr> w"
  obtain r w2 where av: "analyzeVideo env v ?w1 = (r, w2)"
    by (cases "analyzeVideo env v ?w1")
  have calls1: "mkdtemp_calls ?w1 = mkdtemp_calls w" by (simp add: sendProgress_def)
  have r: "r = outcome env v (mkdtemp_calls w)"
    using analyzeVideo_outcome [of env v ?w1] av calls1 by simp
  have calls2: "mkdtemp_calls w2 = Suc (mkdtemp_calls w)"
    using analyzeVideo_calls [of env v ?w1] av calls1 by simp
  have shift: "map (\<lambda>j. outcome env ((v # vs) ! j) (mkdtemp_calls w + j)) [0..<length (v # vs)]
      = outcome env v (mkdtemp_calls w)
        # map (\<lambda>j. outcome env (vs ! j) (Suc (mkdtemp_calls w) + j)) [0..<length vs]"
    by (simp add: map_upt_Suc del: upt_Suc)
  show ?case
  proof (cases r)
    case (Inl e)
    then have "fst (analyze_loop env n i (v # vs) acc w) =
        fst (analyze_loop env n (i + 1) vs acc
              (console_error (''Failed to analyze '' @ filename v @ '':'') e w2))"
      using av by simp
    also have "\<dots> = acc @ successes (map (\<lambda>j. outcome env (vs ! j) (Suc (mkdtemp_calls w) + j)) [0..<length vs])"
      unfolding Cons.IH by (simp add: console_error_def calls2)
    finally show ?thesis
      unfolding shift using Inl r by simp
  next
    case (Inr clip)
    then have "fst (analyze_loop env n i (v # vs) acc w) =
        fst (analyze_loop env n (i + 1) vs (acc @ [clip]) w2)"
      using av by simp
    also have "\<dots> = (acc @ [clip]) @ successes (map (\<lambda>j. outcome env (vs ! j) (Suc (mkdtemp_calls w) + j)) [0..<length vs])"
      unfolding Cons.IH by (simp add: calls2)
    finally show ?thesis
      unfolding shift using Inr r by simp
  qed
qed

lemma analyze_loop_sent:
  "sent (snd (analyze_loop env n i vs acc w)) =
     sent w @ map (\<lambda>j. analyzingEvent (i + j) n (vs ! j)) [0..<length vs]"
proof (induction vs arbitrary: i acc w)
  case Nil
  show ?case by simp
next
  case (Cons v vs)
  let ?w1 = "sendProgress \<lparr>stage = analyzing, current = i + 1, total = n,
                  currentFile = Some (filename v),
                  message = Some (''Analyzing '' @ filename v @ ''...'')\<rparr> w"
  obtain r w2 where av: "analyzeVideo env v ?w1 = (r, w2)"
    by (cases "analyzeVideo env v ?w1")
  have sent2: "sent w2 = sent w @ [analyzingEvent i n v]"
    using analyzeVideo_sent [of env v ?w1] av by (simp add: sendProgress_def analyzingEvent_def)
  have shift: "map (\<lambda>j. analyzingEvent (i + j) n ((v # vs) ! j)) [0..<length (v # vs)]
      = analyzingEvent i n v # map (\<lambda>j. analyzingEvent (i + 1 + j) n (vs ! j)) [0..<length vs]"
    by (simp add: map_upt_Suc del: upt_Suc)
  show ?case
  proof (cases r)
    case (Inl e)
    then have "sent (snd (analyze_loop env n i (v # vs) acc w)) =
        sent (snd (analyze_loop env n (i + 1) vs acc
              (console_error (''Failed to analyze '' @ filename v @ '':'') e w2)))"
      using av by simp
    also have "\<dots> = (sent w @ [analyzingEvent i n v])
          @ map (\<lambda>j. analyzingEvent (i + 1 + j) n (vs ! j)) [0..<length vs]"
      unfolding Cons.IH by (simp add: console_error_def sent2)
    finally show ?thesis unfolding shift by simp
  next
    case (Inr clip)
    then have "sent (snd (analyze_loop env n i (v # vs) acc w)) =
        sent (snd (analyze_loop env n (i + 1) vs (acc @ [clip]) w2))"
      using av by simp
    also have "\<dots> = (sent w @ [analyzingEvent i n v])
          @ map (\<lambda>j. analyzingEvent (i + 1 + j) n (vs ! j)) [0..<length vs]"
      unfolding Cons.IH by (simp add: sent2)
    finally show ?thesis unfolding shift by simp
  qed
qed

text \<open>
  Claim C1. A batch of \<open>N\<close> videos returns the clips of the videos whose analysis succeeded, in
  input order (a failed video is skipped, the loop goes on to the end); it sends, after what
  was sent before, one \<^verbatim>\<open>analyzing\<close> event per video, the \<open>i\<close>-th with
  \<open>current = i + 1\<close>, \<open>total = N\<close> and the file name, and then one \<^verbatim>\<open>complete\<close> event with
  \<open>current = total = N\<close>; the result is also what is stored. Each step of the loop analyses
  its video in the state in which that video's event has been sent.
\<close>

theorem batch_analysis:
  "fst (analyzeVideos env videoFiles w) =
     successes (map (\<lambda>i. outcome env (videoFiles ! i) (mkdtemp_calls w + i)) [0..<length videoFiles])
   \<and> sent (snd (analyzeVideos env videoFiles w)) =
       sent w @ map (\<lambda>i. analyzingEvent i (length videoFiles) (videoFiles ! i)) [0..<length videoFiles]
         @ [completeEvent (length videoFiles)]
   \<and> stored_clips (snd (analyzeVideos env videoFiles w)) = fst (analyzeVideos env videoFiles w)
   \<and> analyze_loop env n i (video # rest) analyzedClips w =
       (case analyzeVideo env video (sendProgress (analyzingEvent i n video) w) of
          (Inr clip, w2) \<Rightarrow> analyze_loop env n (i + 1) rest (analyzedClips @ [clip]) w2
        | (Inl e, w2) \<Rightarrow>
            analyze_loop env n (i + 1) rest analyzedClips
              (console_error (''Failed to analyze '' @ filename video @ '':'') e w2))"
proof -
  have step: "analyze_loop env n i (video # rest) analyzedClips w =
       (case analyzeVideo env video (sendProgress (analyzingEvent i n video) w) of
          (Inr clip, w2) \<Rightarrow> analyze_loop env n (i + 1) rest (analyzedClips @ [clip]) w2
        | (Inl e, w2) \<Rightarrow>
            analyze_loop env n (i + 1) rest analyzedClips
              (console_error (''Failed to analyze '' @ filename video @ '':'') e w2))"
    by (simp add: analyzingEvent_def)
  obtain cs w1 where l: "analyze_loop env (length videoFiles) 0 videoFiles [] w = (cs, w1)"
    by (cases "analyze_loop env (length videoFiles) 0 videoFiles [] w")
  have cs: "cs = successes (map (\<lambda>i. outcome env (videoFiles ! i) (mkdtemp_calls w + i)) [0..<length videoFiles])"
    using analyze_loop_result [of env "length videoFiles" 0 videoFiles "[]" w] l by simp
  have s1: "sent w1 = sent w @ map (\<lambda>i. analyzingEvent i (length videoFiles) (videoFiles ! i)) [0..<length videoFiles]"
    using analyze_loop_sent [of env "length videoFiles" 0 videoFiles "[]" w] l by simp
  have "fst (analyzeVideos env videoFiles w) = cs"
    "sent (snd (analyzeVideos env videoFiles w)) = sent w1 @ [completeEvent (length videoFiles)]"
    "stored_clips (snd (analyzeVideos env videoFiles w)) = cs"
    using l by (simp_all add: analyzeVideos_def sendProgress_def setClips_def completeEvent_def)
  with cs s1 step show ?thesis by simp
qed

text \<open>
  Three videos, the second of which ffmpeg cannot decode: two clips, three
  \<^verbatim>\<open>analyzing\<close> events and one \<^verbatim>\<open>complete\<close> event with \<open>total = 3\<close>.
\<close>

theorem batch_analysis_example:
  "fst (analyzeVideos studio batchOfThree emptyWorld) =
     [analyzedClip (sampleVideo ''/v/a.mp4'' ''a.mp4'')
        ''data:image/jpeg;base64,jpeg of /tmp/video-culler-0/frame-0002.png'' (Num 33),
      analyzedClip (sampleVideo ''/v/c.mp4'' ''c.mp4'')
        ''data:image/jpeg;base64,jpeg of /tmp/video-culler-2/frame-0002.png'' (Num 33)]
   \<and> sent (snd (analyzeVideos studio batchOfThree emptyWorld)) =
       [analyzingEvent 0 3 (sampleVideo ''/v/a.mp4'' ''a.mp4''),
        analyzingEvent 1 3 (sampleVideo ''/v/broken.mp4'' ''broken.mp4''),
        analyzingEvent 2 3 (sampleVideo ''/v/c.mp4'' ''c.mp4''),
        completeEvent 3]"
proof -
  have o1: "outcome studio (sampleVideo ''/v/broken.mp4'' ''broken.mp4'') (Suc 0) =
      Inl (Error ''ffmpeg exited with code 1'')"
    by code_simp
  have o2: "outcome studio (sampleVideo ''/v/c.mp4'' ''c.mp4'') 2 =
     Inr (analyzedClip (sampleVideo ''/v/c.mp4'' ''c.mp4'')
           ''data:image/jpeg;base64,jpeg of /tmp/video-culler-2/frame-0002.png'' (Num 33))"
    by code_simp
  have len: "length batchOfThree = 3" by (simp add: batchOfThree_def)
  have upt3: "[0..<3] = [0, Suc 0, 2]" by (simp add: upt_conv_Cons)
  from batch_analysis [of studio batchOfThree emptyWorld] show ?thesis
    unfolding len upt3
    by (simp add: emptyWorld_def batchOfThree_def studio_outcome_a o1 o2)
qed






end
